theory Spec2Isabelle
  imports Complex_Main "HOL-Library.Word" "HOL-Library.Log_Nat"
begin

section \<open>Go values used by the video upload handler\<close>

text \<open>
  A Go \<open>error\<close> is modelled by its message, a fallible call by a sum whose left
  summand is the error. Byte slices are lists of 8-bit words.
\<close>

type_synonym error = string
type_synonym byte = "8 word"

subsection \<open>float64\<close>

text \<open>
  The values of an IEEE 754 binary64 as far as the handler can tell them apart: a finite
  value (a rational), the two infinities and NaN. The two zeros are one value here: the
  handler only compares a quotient with constants, which does not tell them apart, and the
  only divisor it builds is converted from an integer, so a zero divisor is \<open>+0\<close>.
\<close>

datatype float64 = Finite rat | PosInf | NegInf | NaN

definition pow2 :: "int \<Rightarrow> rat" where
  "pow2 e = (if 0 \<le> e then 2 ^ nat e else 1 / 2 ^ nat (- e))"

text \<open>\<open>ilog2 x\<close> is the exponent \<open>e\<close> with \<open>2^e \<le> x < 2^(e+1)\<close>, for \<open>x > 0\<close>.\<close>

definition ilog2 :: "rat \<Rightarrow> int" where
  "ilog2 x = (case quotient_of x of (p, q) \<Rightarrow>
     (let d = bitlen p - bitlen q in if pow2 d \<le> x then d else d - 1))"

definition round_half_even :: "rat \<Rightarrow> int" where
  "round_half_even x = (let f = \<lfloor>x\<rfloor>; r = x - of_int f in
     if r < 1 / 2 then f else if 1 / 2 < r then f + 1 else if even f then f else f + 1)"

text \<open>
  Rounding of an exact result to binary64, to nearest with ties to even: the significand
  \<open>m\<close> has 53 bits at the exponent \<open>e\<close> of the value, the least exponent is that of
  the subnormal numbers, and a result that reaches \<open>2^1024\<close> (an exponent beyond 1023,
  or the significand \<open>2^53\<close> at the exponent 1023) overflows to an infinity.
\<close>

definition round_f64 :: "rat \<Rightarrow> float64" where
  "round_f64 x = (if x = 0 then Finite 0 else
     (let e = max (ilog2 \<bar>x\<bar>) (- 1022);
          m = round_half_even (\<bar>x\<bar> / pow2 (e - 52));
          y = of_int m * pow2 (e - 52)
      in if 1023 < e \<or> (e = 1023 \<and> m = 2 ^ 53) then (if 0 < x then PosInf else NegInf)
         else Finite (if 0 < x then y else - y)))"

text \<open>The conversion \<open>float64(i)\<close> of an integer and a floating-point constant.\<close>

definition float64_of_int :: "int \<Rightarrow> float64" where
  "float64_of_int i = round_f64 (of_int i)"

definition float64_const :: "rat \<Rightarrow> float64" where
  "float64_const c = round_f64 c"

fun f64_div :: "float64 \<Rightarrow> float64 \<Rightarrow> float64" where
  "f64_div NaN _ = NaN"
| "f64_div _ NaN = NaN"
| "f64_div (Finite a) (Finite b) =
     (if b = 0 then (if a = 0 then NaN else if 0 < a then PosInf else NegInf)
      else round_f64 (a / b))"
| "f64_div (Finite a) PosInf = Finite 0"
| "f64_div (Finite a) NegInf = Finite 0"
| "f64_div PosInf (Finite b) = (if 0 \<le> b then PosInf else NegInf)"
| "f64_div NegInf (Finite b) = (if 0 \<le> b then NegInf else PosInf)"
| "f64_div PosInf PosInf = NaN"
| "f64_div PosInf NegInf = NaN"
| "f64_div NegInf PosInf = NaN"
| "f64_div NegInf NegInf = NaN"

text \<open>Comparison: every comparison with NaN is false.\<close>

fun f64_le :: "float64 \<Rightarrow> float64 \<Rightarrow> bool" where
  "f64_le NaN _ = False"
| "f64_le _ NaN = False"
| "f64_le NegInf _ = True"
| "f64_le _ PosInf = True"
| "f64_le (Finite a) (Finite b) = (a \<le> b)"
| "f64_le (Finite a) NegInf = False"
| "f64_le PosInf (Finite b) = False"
| "f64_le PosInf NegInf = False"

definition f64_ge :: "float64 \<Rightarrow> float64 \<Rightarrow> bool" where
  "f64_ge x y = f64_le y x"

section \<open>Media prober and aspect classifier\<close>

text \<open>
  \<open>FFProbeShowStreamsReponse\<close>: the streams of the probe's JSON output, each with the
  \<open>int\<close> fields \<open>Width\<close> and \<open>Height\<close> (64 bits).
\<close>

record Stream =
  Width :: "64 word"
  Height :: "64 word"

record FFProbeShowStreamsReponse =
  Streams :: "Stream list"

text \<open>
  What \<open>getVideoAspectRatio\<close> takes from outside: the run of \<open>ffprobe\<close> on a path
  (its standard output, or the error of \<open>cmd.Run\<close>) and \<open>json.Unmarshal\<close> of that
  output.
\<close>

record probe_env =
  ffprobe :: "string \<Rightarrow> error + byte list"
  Unmarshal :: "byte list \<Rightarrow> error + FFProbeShowStreamsReponse"

text \<open>Line 190: \<open>float64(Width) / float64(Height)\<close> of a stream.\<close>

definition stream_ratio :: "Stream \<Rightarrow> float64" where
  "stream_ratio s = f64_div (float64_of_int (sint (Width s))) (float64_of_int (sint (Height s)))"

text \<open>Lines 192 to 200: the bands, the first match wins.\<close>

definition aspect_of_ratio :: "float64 \<Rightarrow> string" where
  "aspect_of_ratio ratio =
     (if f64_ge ratio (float64_const (17 / 10)) \<and> f64_le ratio (float64_const (18 / 10))
      then ''16:9''
      else if f64_ge ratio (float64_const (5 / 10)) \<and> f64_le ratio (float64_const (6 / 10))
      then ''9:16''
      else ''other'')"

definition getVideoAspectRatio :: "('a probe_env_scheme) \<Rightarrow> string \<Rightarrow> error + string" where
  "getVideoAspectRatio env filePath =
     (case ffprobe env filePath of
        Inl err \<Rightarrow> Inl (''failed to run ffprobe: '' @ err)
      | Inr out \<Rightarrow>
          (case Unmarshal env out of
             Inl err \<Rightarrow> Inl err
           | Inr streams \<Rightarrow>
               (case Streams streams of
                  [] \<Rightarrow> Inl ''no streams found in video file''
                | s # _ \<Rightarrow> Inr (aspect_of_ratio (stream_ratio s)))))"

section \<open>Library functions the handler calls\<close>

subsection \<open>strings.Split\<close>

text \<open>
  \<open>genSplit\<close> cuts \<open>s\<close> at the leftmost occurrences of the separator that do not
  overlap; \<open>acc\<close> holds, reversed, the bytes of the part being read. With an empty
  separator Go cuts after every UTF-8 sequence, which is after every byte for ASCII text;
  the handler always passes a comma.
\<close>

function genSplit :: "string \<Rightarrow> string \<Rightarrow> string \<Rightarrow> string list" where
  "genSplit sep acc s =
     (if sep \<noteq> [] \<and> take (length sep) s = sep
      then rev acc # genSplit sep [] (drop (length sep) s)
      else (case s of [] \<Rightarrow> [rev acc] | c # cs \<Rightarrow> genSplit sep (c # acc) cs))"
  by pat_completeness auto
termination
proof (relation "measure (\<lambda>(sep, acc, s). length s)")
  fix sep acc s :: string
  assume "sep \<noteq> [] \<and> take (length sep) s = sep"
  then have "s \<noteq> []" and "0 < length sep"
    by auto
  then show "((sep, [], drop (length sep) s), (sep, acc, s)) \<in> measure (\<lambda>(sep, acc, s). length s)"
    by (cases s) auto
qed auto

definition Split :: "string \<Rightarrow> string \<Rightarrow> string list" where
  "Split s sep = (if sep = [] then map (\<lambda>c. [c]) s else genSplit sep [] s)"

subsection \<open>base64.RawURLEncoding\<close>

definition encodeURL :: string where
  "encodeURL = ''ABCDEFGHIJKLMNOPQRSTUVWXYZabcdefghijklmnopqrstuvwxyz0123456789-_''"

text \<open>The 24-bit group \<open>a<<16 | b<<8 | c\<close> and the character for six of its bits.\<close>

definition b64_val :: "byte \<Rightarrow> byte \<Rightarrow> byte \<Rightarrow> nat" where
  "b64_val a b c = unat a * 65536 + unat b * 256 + unat c"

definition b64_char :: "nat \<Rightarrow> nat \<Rightarrow> char" where
  "b64_char val sh = encodeURL ! ((val div 2 ^ sh) mod 64)"

fun EncodeToString :: "byte list \<Rightarrow> string" where
  "EncodeToString [] = []"
| "EncodeToString [a] =
     (let val = b64_val a 0 0 in [b64_char val 18, b64_char val 12])"
| "EncodeToString [a, b] =
     (let val = b64_val a b 0 in [b64_char val 18, b64_char val 12, b64_char val 6])"
| "EncodeToString (a # b # c # src) =
     (let val = b64_val a b c
      in b64_char val 18 # b64_char val 12 # b64_char val 6 # b64_char val 0 #
         EncodeToString src)"

subsection \<open>time.Duration\<close>

type_synonym Duration = int

definition Second :: Duration where
  "Second = 1000000000"

definition Minute :: Duration where
  "Minute = 60 * Second"

section \<open>The world of one request\<close>

type_synonym UUID = "128 word"

text \<open>
  Modelled from the spec: \<open>database.Video\<close>, declared in the package
  \<open>internal/database\<close>. The spec's VideoRecord has an identity, the owning user's
  identity, an optional Locator (\<open>VideoURL\<close>) and an optional thumbnail reference.
\<close>

record Video =
  ID :: UUID
  UserID :: UUID
  ThumbnailURL :: "string option"
  VideoURL :: "string option"

record apiConfig =
  jwtSecret :: string
  s3Bucket :: string

text \<open>
  The request: the path value, the headers, the number of bytes of the body, the limit a
  \<open>MaxBytesReader\<close> put on the body, and the content type of the part \<open>video\<close> that
  parsing the whole body as a multipart form finds (or the error of that).
\<close>

record Request =
  PathValue_videoID :: string
  Header :: "(string \<times> string) list"
  body_size :: nat
  body_limit :: "nat option"
  form_video :: "error + string"

text \<open>
  \<open>respondWithError\<close> and \<open>respondWithJSON\<close> write a status code with a message or
  with a video; the error handed to \<open>respondWithError\<close> only goes to the log.
\<close>

datatype response = RespError nat string | RespJSON nat Video

text \<open>The calls that reach the request body, the local files, the stores and the tools.\<close>

datatype event =
    Call_MaxBytesReader nat
  | Call_FormFile string
  | Call_CreateTemp string
  | Call_Remove string
  | Call_ffmpeg string string
  | Call_PutObject string string string string
  | Call_UpdateVideo Video
  | Call_PresignGetObject string string Duration

text \<open>
  The local files that exist, the objects of the store (bucket and key to the file that
  was the body and the content type), the video records, and the calls made so far.
\<close>

record world =
  files :: "string set"
  s3 :: "string \<times> string \<Rightarrow> (string \<times> string) option"
  db :: "UUID \<Rightarrow> Video option"
  calls :: "event list"

definition call :: "event \<Rightarrow> world \<Rightarrow> world" where
  "call e w = w\<lparr>calls := calls w @ [e]\<rparr>"

text \<open>
  What one request takes from outside, besides the probe: identifier parsing and
  authentication, the MIME tables, the temporary name \<open>os.CreateTemp\<close> picks, the
  outcome of copying and seeking, the run of \<open>ffmpeg\<close> (its error, and whether the
  output file exists afterwards), errors of opening an existing file, the random source,
  and the outcomes of the store's put, the record update and the presigning.
\<close>

record upload_env = probe_env +
  uuid_Parse :: "string \<Rightarrow> error + UUID"
  GetBearerToken :: "(string \<times> string) list \<Rightarrow> error + string"
  ValidateJWT :: "string \<Rightarrow> string \<Rightarrow> error + UUID"
  ParseMediaType :: "string \<Rightarrow> string \<times> error option"
  ExtensionsByType :: "string \<Rightarrow> error + string list"
  temp_name :: "string \<Rightarrow> error + string"
  io_Copy :: "string \<Rightarrow> error option"
  Seek :: "string \<Rightarrow> error option"
  ffmpeg :: "string \<Rightarrow> string \<Rightarrow> error option \<times> bool"
  open_error :: "string \<Rightarrow> error option"
  rand_Read :: "error + byte list"
  put_error :: "string \<Rightarrow> string \<Rightarrow> error option"
  update_error :: "Video \<Rightarrow> error option"
  presign :: "string \<Rightarrow> string \<Rightarrow> Duration \<Rightarrow> error + string"

section \<open>Calls on the world\<close>

text \<open>
  \<open>r.FormFile\<close> parses the whole body as a multipart form, reading it through
  \<open>r.Body\<close>; a \<open>MaxBytesReader\<close> fails the read that goes beyond its limit.
\<close>

definition FormFile :: "Request \<Rightarrow> string \<Rightarrow> world \<Rightarrow> (error + string) \<times> world" where
  "FormFile r name w =
     (let w' = call (Call_FormFile name) w
      in case body_limit r of
           None \<Rightarrow> (form_video r, w')
         | Some n \<Rightarrow>
             if n < body_size r then (Inl ''http: request body too large'', w')
             else (form_video r, w'))"

text \<open>
  \<open>os.CreateTemp\<close> makes a file that did not exist, under the name the environment picks
  for the pattern, or fails.
\<close>

definition CreateTemp :: "('a upload_env_scheme) \<Rightarrow> string \<Rightarrow> world \<Rightarrow> (error + string) \<times> world" where
  "CreateTemp env pattern w =
     (case temp_name env pattern of
        Inl err \<Rightarrow> (Inl err, w)
      | Inr name \<Rightarrow>
          if name \<in> files w then (Inl ''file exists'', w)
          else (Inr name, call (Call_CreateTemp name) (w\<lparr>files := insert name (files w)\<rparr>)))"

definition Remove :: "string \<Rightarrow> world \<Rightarrow> world" where
  "Remove name w = call (Call_Remove name) (w\<lparr>files := files w - {name}\<rparr>)"

text \<open>\<open>os.Open\<close> fails on a file that does not exist, and may fail on one that does.\<close>

definition os_Open :: "('a upload_env_scheme) \<Rightarrow> string \<Rightarrow> world \<Rightarrow> error option" where
  "os_Open env name w =
     (if name \<in> files w then open_error env name else Some ''no such file or directory'')"

text \<open>
  Modelled from the spec: \<open>cfg.db.GetVideo\<close> and \<open>cfg.db.UpdateVideo\<close> of the package
  \<open>internal/database\<close>, the record store's \<open>FetchRecord(id)\<close>, which returns the record
  or fails, and \<open>UpdateRecord(record)\<close>, which stores the record under its identity or
  fails and leaves the store as it was.
\<close>

definition GetVideo :: "world \<Rightarrow> UUID \<Rightarrow> error + Video" where
  "GetVideo w videoID = (case db w videoID of None \<Rightarrow> Inl ''not found'' | Some v \<Rightarrow> Inr v)"

definition UpdateVideo :: "('a upload_env_scheme) \<Rightarrow> Video \<Rightarrow> world \<Rightarrow> error option \<times> world" where
  "UpdateVideo env video w =
     (let w' = call (Call_UpdateVideo video) w
      in case update_error env video of
           Some err \<Rightarrow> (Some err, w')
         | None \<Rightarrow> (None, w'\<lparr>db := (db w')(ID video \<mapsto> video)\<rparr>))"

text \<open>\<open>s3Client.PutObject\<close>: one put of the file under bucket and key, or an error.\<close>

definition PutObject ::
  "('a upload_env_scheme) \<Rightarrow> string \<Rightarrow> string \<Rightarrow> string \<Rightarrow> string \<Rightarrow> world \<Rightarrow> error option \<times> world" where
  "PutObject env bucket key body contentType w =
     (let w' = call (Call_PutObject bucket key body contentType) w
      in case put_error env bucket key of
           Some err \<Rightarrow> (Some err, w')
         | None \<Rightarrow> (None, w'\<lparr>s3 := (s3 w')((bucket, key) \<mapsto> (body, contentType))\<rparr>))"

section \<open>The functions of \<open>handler_upload_video.go\<close>\<close>

definition processVideoForFastStart ::
  "('a upload_env_scheme) \<Rightarrow> string \<Rightarrow> world \<Rightarrow> (error + string) \<times> world" where
  "processVideoForFastStart env filePath w =
     (let outFilePath = filePath @ ''.processing'';
          run = ffmpeg env filePath outFilePath;
          w' = call (Call_ffmpeg filePath outFilePath)
                 (if snd run then w\<lparr>files := insert outFilePath (files w)\<rparr> else w)
      in case fst run of
           Some err \<Rightarrow> (Inl (''failed to run ffmpeg: '' @ err), w')
         | None \<Rightarrow> (Inr outFilePath, w'))"

definition generatePresignedURL ::
  "('a upload_env_scheme) \<Rightarrow> string \<Rightarrow> string \<Rightarrow> Duration \<Rightarrow> world \<Rightarrow> (error + string) \<times> world" where
  "generatePresignedURL env bucket key expireTime w =
     (let w' = call (Call_PresignGetObject bucket key expireTime) w
      in case presign env bucket key expireTime of
           Inl err \<Rightarrow> (Inl (''error generating presigned url: '' @ err), w')
         | Inr url \<Rightarrow> (Inr url, w'))"

text \<open>Line 240: the error for a \<open>VideoURL\<close> that does not split into two parts.\<close>

definition MalformedLocator :: error where
  "MalformedLocator = ''error mapping db video to video with presigned url''"

definition dbVideoToSignedVideo ::
  "('a upload_env_scheme) \<Rightarrow> Video \<Rightarrow> world \<Rightarrow> (error + Video) \<times> world" where
  "dbVideoToSignedVideo env video w =
     (case VideoURL video of
        None \<Rightarrow> (Inr video, w)
      | Some url \<Rightarrow>
          (case Split url '','' of
             [bucket, key] \<Rightarrow>
               (case generatePresignedURL env bucket key (30 * Minute) w of
                  (Inl err, w') \<Rightarrow>
                    (Inl (''error mapping db video to video with presigned url: '' @ err), w')
                | (Inr videoURL, w') \<Rightarrow> (Inr (video\<lparr>VideoURL := Some videoURL\<rparr>), w'))
           | _ \<Rightarrow> (Inl MalformedLocator, w)))"

text \<open>Lines 99 to 106, line 131 and line 145.\<close>

definition keyPrefix_of :: "string \<Rightarrow> string" where
  "keyPrefix_of aspectRatio =
     (if aspectRatio = ''16:9'' then ''landscape''
      else if aspectRatio = ''9:16'' then ''portrait''
      else ''other'')"

definition objectKey_of :: "string \<Rightarrow> string \<Rightarrow> string \<Rightarrow> string" where
  "objectKey_of keyPrefix filenameNoExt ext = keyPrefix @ ''/'' @ (filenameNoExt @ ext)"

definition videoURL_of :: "string \<Rightarrow> string \<Rightarrow> string" where
  "videoURL_of bucket objectKey = bucket @ '','' @ objectKey"

definition uploadLimit :: nat where
  "uploadLimit = 2 ^ 30"

text \<open>
  Lines 123 to 160, with the processed file open: its removal is deferred by the caller.
  The buffer of 32 zero bytes holds what the random source delivered.
\<close>

definition upload_processed ::
  "apiConfig \<Rightarrow> ('a upload_env_scheme) \<Rightarrow> Video \<Rightarrow> string \<Rightarrow> string \<Rightarrow> string \<Rightarrow> string \<Rightarrow>
     world \<Rightarrow> response \<times> world" where
  "upload_processed cfg env video mediaType ext keyPrefix processed w =
     (case rand_Read env of
        Inl err \<Rightarrow> (RespError 500 ''Something went wrong'', w)
      | Inr bytes \<Rightarrow>
          (let b = take 32 (bytes @ replicate 32 0);
               filenameNoExt = EncodeToString b;
               objectKey = objectKey_of keyPrefix filenameNoExt ext
           in case PutObject env (s3Bucket cfg) objectKey processed mediaType w of
                (Some err, w1) \<Rightarrow> (RespError 500 ''Something went wrong'', w1)
              | (None, w1) \<Rightarrow>
                  (let videoURL = videoURL_of (s3Bucket cfg) objectKey;
                       video' = video\<lparr>VideoURL := Some videoURL\<rparr>
                   in case UpdateVideo env video' w1 of
                        (Some err, w2) \<Rightarrow> (RespError 500 ''Something went wrong'', w2)
                      | (None, w2) \<Rightarrow>
                          (case dbVideoToSignedVideo env video' w2 of
                             (Inl err, w3) \<Rightarrow>
                               (RespError 500 ''error mapping db video to signed video'', w3)
                           | (Inr video2, w3) \<Rightarrow> (RespJSON 200 video2, w3)))))"

text \<open>
  Lines 83 to 121, with the staged file created: its removal is deferred by the caller,
  and the removal of the processed file is deferred here once it has been opened.
\<close>

definition upload_staged ::
  "apiConfig \<Rightarrow> ('a upload_env_scheme) \<Rightarrow> Video \<Rightarrow> string \<Rightarrow> string \<Rightarrow> string \<Rightarrow>
     world \<Rightarrow> response \<times> world" where
  "upload_staged cfg env video mediaType ext tempfile w =
     (case io_Copy env tempfile of
        Some err \<Rightarrow> (RespError 500 ''Something went wrong'', w)
      | None \<Rightarrow>
     (case Seek env tempfile of
        Some err \<Rightarrow> (RespError 500 ''Something went wrong'', w)
      | None \<Rightarrow>
     (case getVideoAspectRatio env tempfile of
        Inl err \<Rightarrow> (RespError 500 ''Error getting video aspect ratio'', w)
      | Inr aspectRatio \<Rightarrow>
     (case processVideoForFastStart env tempfile w of
        (Inl err, w1) \<Rightarrow> (RespError 500 ''Error processing video for faststart'', w1)
      | (Inr processedFilePath, w1) \<Rightarrow>
     (case os_Open env processedFilePath w1 of
        Some err \<Rightarrow> (RespError 500 ''Error opening processed file'', w1)
      | None \<Rightarrow>
          (case upload_processed cfg env video mediaType ext (keyPrefix_of aspectRatio)
                  processedFilePath w1 of
             (resp, w2) \<Rightarrow> (resp, Remove processedFilePath w2)))))))"

definition handlerUploadVideo ::
  "apiConfig \<Rightarrow> ('a upload_env_scheme) \<Rightarrow> Request \<Rightarrow> world \<Rightarrow> response \<times> world" where
  "handlerUploadVideo cfg env r0 w0 =
     (let r = r0\<lparr>body_limit := Some uploadLimit\<rparr>;
          w = call (Call_MaxBytesReader uploadLimit) w0
      in
     (case uuid_Parse env (PathValue_videoID r) of
        Inl err \<Rightarrow> (RespError 400 ''Invalid ID'', w)
      | Inr videoID \<Rightarrow>
     (case GetBearerToken env (Header r) of
        Inl err \<Rightarrow> (RespError 401 ''Couldn't find JWT'', w)
      | Inr token \<Rightarrow>
     (case ValidateJWT env token (jwtSecret cfg) of
        Inl err \<Rightarrow> (RespError 401 ''Couldn't validate JWT'', w)
      | Inr userID \<Rightarrow>
     (case GetVideo w videoID of
        Inl err \<Rightarrow> (RespError 401 ''Unauthorized'', w)
      | Inr video \<Rightarrow>
          if UserID video \<noteq> userID then (RespError 401 ''Unauthorized'', w)
          else
     (case FormFile r ''video'' w of
        (Inl err, w1) \<Rightarrow> (RespError 400 ''Unable to parse form file'', w1)
      | (Inr mimeType, w1) \<Rightarrow>
          if fst (ParseMediaType env mimeType) \<noteq> ''video/mp4''
          then (RespError 400 ''Upload a valid mp4 video'', w1)
          else
     (case ExtensionsByType env mimeType of
        Inl err \<Rightarrow> (RespError 400 ''Upload a valid mp4 video'', w1)
      | Inr [] \<Rightarrow> (RespError 400 ''Upload a valid mp4 video'', w1)
      | Inr (ext # _) \<Rightarrow>
     (case CreateTemp env ''tubely-upload.mp4'' w1 of
        (Inl err, w2) \<Rightarrow> (RespError 500 ''Something went wrong'', w2)
      | (Inr tempfile, w2) \<Rightarrow>
          (case upload_staged cfg env video (fst (ParseMediaType env mimeType)) ext tempfile w2 of
             (resp, w3) \<Rightarrow> (resp, Remove tempfile w3))))))))))"

text \<open>The records handed to \<open>UpdateVideo\<close> in a sequence of calls.\<close>

fun updates_of :: "event list \<Rightarrow> Video list" where
  "updates_of [] = []"
| "updates_of (Call_UpdateVideo video # es) = video # updates_of es"
| "updates_of (_ # es) = updates_of es"

section \<open>A concrete request\<close>

text \<open>
  An environment in which every step succeeds, for a video whose first stream has the
  given width and height; the random source delivers 32 zero bytes.
\<close>

definition demo_env :: "64 word \<Rightarrow> 64 word \<Rightarrow> upload_env" where
  "demo_env wd ht =
     \<lparr>ffprobe = (\<lambda>p. Inr []),
      Unmarshal = (\<lambda>out. Inr \<lparr>Streams = [\<lparr>Width = wd, Height = ht\<rparr>]\<rparr>),
      uuid_Parse = (\<lambda>s. Inr 7),
      GetBearerToken = (\<lambda>h. Inr ''token''),
      ValidateJWT = (\<lambda>t s. Inr 42),
      ParseMediaType = (\<lambda>m. (m, None)),
      ExtensionsByType = (\<lambda>m. Inr [''.mp4'']),
      temp_name = (\<lambda>p. Inr (''/tmp/'' @ p @ ''123'')),
      io_Copy = (\<lambda>f. None),
      Seek = (\<lambda>f. None),
      ffmpeg = (\<lambda>i out. (None, True)),
      open_error = (\<lambda>f. None),
      rand_Read = Inr (replicate 32 0),
      put_error = (\<lambda>b k. None),
      update_error = (\<lambda>v. None),
      presign = (\<lambda>b k d. Inr (''https://'' @ b @ ''/'' @ k @ ''?signed''))\<rparr>"

text \<open>The same, but \<open>ffmpeg\<close> exits with an error after it has created its output file.\<close>

definition remux_fail_env :: upload_env where
  "remux_fail_env = (demo_env 1280 720)\<lparr>ffmpeg := (\<lambda>i out. (Some ''exit status 1'', True))\<rparr>"

text \<open>The same, but the MIME table gives an extension with a comma.\<close>

definition comma_ext_env :: upload_env where
  "comma_ext_env = (demo_env 1280 720)\<lparr>ExtensionsByType := (\<lambda>m. Inr [''.m,p4''])\<rparr>"

definition demo_cfg :: apiConfig where
  "demo_cfg = \<lparr>jwtSecret = ''secret'', s3Bucket = ''tubely''\<rparr>"

definition demo_request :: Request where
  "demo_request =
     \<lparr>PathValue_videoID = ''7'', Header = [], body_size = 1000, body_limit = None,
      form_video = Inr ''video/mp4''\<rparr>"

definition demo_video :: Video where
  "demo_video = \<lparr>ID = 7, UserID = 42, ThumbnailURL = None, VideoURL = None\<rparr>"

definition demo_world :: world where
  "demo_world = \<lparr>files = {}, s3 = Map.empty, db = [7 \<mapsto> demo_video], calls = []\<rparr>"

section \<open>The aspect classifier\<close>

lemma const_17: "float64_const (17 / 10) = Finite (7656119366529843 / 4503599627370496)"
  by code_simp

lemma const_18: "float64_const (9 / 5) = Finite (8106479329266893 / 4503599627370496)"
  by code_simp

lemma const_05: "float64_const (1 / 2) = Finite (1 / 2)"
  by code_simp

lemma const_06: "float64_const (3 / 5) = Finite (5404319552844595 / 9007199254740992)"
  by code_simp

lemmas f64_consts = const_17 const_18 const_05 const_06

lemma aspect_NaN: "aspect_of_ratio NaN = ''other''"
  by (simp add: aspect_of_ratio_def f64_ge_def f64_consts)

lemma aspect_PosInf: "aspect_of_ratio PosInf = ''other''"
  by (simp add: aspect_of_ratio_def f64_ge_def f64_consts)

lemma aspect_NegInf: "aspect_of_ratio NegInf = ''other''"
  by (simp add: aspect_of_ratio_def f64_ge_def f64_consts)

lemma f64_div_zero: "f64_div x (Finite 0) \<in> {PosInf, NegInf, NaN}"
  by (cases x) auto

lemma float64_of_int_0: "float64_of_int 0 = Finite 0"
  by (simp add: float64_of_int_def round_f64_def)

lemma getVideoAspectRatio_first_stream:
  "ffprobe env p = Inr out \<Longrightarrow> Unmarshal env out = Inr resp \<Longrightarrow> Streams resp = s # ss \<Longrightarrow>
     getVideoAspectRatio env p = Inr (aspect_of_ratio (stream_ratio s))"
  by (simp add: getVideoAspectRatio_def)

lemma ratio_17_10: "stream_ratio \<lparr>Width = 17, Height = 10\<rparr> = float64_const (17 / 10)"
  by code_simp

text \<open>
  C1. For every ratio \<open>r\<close>, the classifier returns the wide category \<open>16:9\<close> exactly when
  \<open>1.7 \<le> r \<le> 1.8\<close>, the tall category \<open>9:16\<close> exactly when \<open>0.5 \<le> r \<le> 0.6\<close>, and
  \<open>other\<close> exactly when \<open>r\<close> is in neither band, where the comparisons are those of
  float64 and the bounds are the float64 constants. The four bounds themselves classify
  into their band. The ratio classified by \<open>getVideoAspectRatio\<close> is that of the first
  stream the probe reports.
\<close>

theorem C1_aspect_bands:
  "(aspect_of_ratio r = ''16:9'' \<longleftrightarrow>
      f64_ge r (float64_const (17 / 10)) \<and> f64_le r (float64_const (18 / 10))) \<and>
   (aspect_of_ratio r = ''9:16'' \<longleftrightarrow>
      f64_ge r (float64_const (5 / 10)) \<and> f64_le r (float64_const (6 / 10))) \<and>
   (aspect_of_ratio r = ''other'' \<longleftrightarrow>
      \<not> (f64_ge r (float64_const (17 / 10)) \<and> f64_le r (float64_const (18 / 10))) \<and>
      \<not> (f64_ge r (float64_const (5 / 10)) \<and> f64_le r (float64_const (6 / 10)))) \<and>
   aspect_of_ratio (float64_const (17 / 10)) = ''16:9'' \<and>
   aspect_of_ratio (float64_const (18 / 10)) = ''16:9'' \<and>
   aspect_of_ratio (float64_const (5 / 10)) = ''9:16'' \<and>
   aspect_of_ratio (float64_const (6 / 10)) = ''9:16'' \<and>
   (ffprobe env p = Inr out \<and> Unmarshal env out = Inr resp \<and> Streams resp = s # ss \<longrightarrow>
      getVideoAspectRatio env p = Inr (aspect_of_ratio (stream_ratio s)))"
proof -
  have bands: "\<not> (f64_ge r (float64_const (17 / 10)) \<and> f64_le r (float64_const (6 / 10)))"
    by (cases r) (simp_all add: f64_ge_def f64_consts)
  have wide: "aspect_of_ratio r = ''16:9'' \<longleftrightarrow>
      f64_ge r (float64_const (17 / 10)) \<and> f64_le r (float64_const (18 / 10))"
    by (simp add: aspect_of_ratio_def)
  have tall: "aspect_of_ratio r = ''9:16'' \<longleftrightarrow>
      f64_ge r (float64_const (5 / 10)) \<and> f64_le r (float64_const (6 / 10))"
    using bands by (auto simp add: aspect_of_ratio_def)
  have other: "aspect_of_ratio r = ''other'' \<longleftrightarrow>
      \<not> (f64_ge r (float64_const (17 / 10)) \<and> f64_le r (float64_const (18 / 10))) \<and>
      \<not> (f64_ge r (float64_const (5 / 10)) \<and> f64_le r (float64_const (6 / 10)))"
    by (simp add: aspect_of_ratio_def)
  have b: "aspect_of_ratio (float64_const (17 / 10)) = ''16:9''"
    "aspect_of_ratio (float64_const (18 / 10)) = ''16:9''"
    "aspect_of_ratio (float64_const (5 / 10)) = ''9:16''"
    "aspect_of_ratio (float64_const (6 / 10)) = ''9:16''"
    by (simp_all add: aspect_of_ratio_def f64_ge_def f64_consts)
  show ?thesis
    using wide tall other b getVideoAspectRatio_first_stream [of env p out resp s ss]
    by blast
qed

theorem C1_aspect_bands_witness:
  "ffprobe (demo_env 17 10) ''f'' = Inr [] \<and>
   Unmarshal (demo_env 17 10) [] = Inr \<lparr>Streams = [\<lparr>Width = 17, Height = 10\<rparr>]\<rparr> \<and>
   stream_ratio \<lparr>Width = 17, Height = 10\<rparr> = float64_const (17 / 10) \<and>
   getVideoAspectRatio (demo_env 17 10) ''f'' = Inr ''16:9''"
proof -
  have h1: "ffprobe (demo_env 17 10) ''f'' = Inr []"
    by (simp add: demo_env_def)
  have h2: "Unmarshal (demo_env 17 10) [] = Inr \<lparr>Streams = [\<lparr>Width = 17, Height = 10\<rparr>]\<rparr>"
    by (simp add: demo_env_def)
  have h3: "Streams \<lparr>Streams = [\<lparr>Width = 17, Height = 10\<rparr>]\<rparr> = \<lparr>Width = 17, Height = 10\<rparr> # []"
    by simp
  note c = C1_aspect_bands [of "float64_const (17 / 10)" "demo_env 17 10" "''f''" "[]"
      "\<lparr>Streams = [\<lparr>Width = 17, Height = 10\<rparr>]\<rparr>" "\<lparr>Width = 17, Height = 10\<rparr>" "[]"]
  from c h1 h2 h3 have "getVideoAspectRatio (demo_env 17 10) ''f'' =
      Inr (aspect_of_ratio (stream_ratio \<lparr>Width = 17, Height = 10\<rparr>))"
    by blast
  moreover from c have "aspect_of_ratio (float64_const (17 / 10)) = ''16:9''"
    by blast
  ultimately show ?thesis
    using h1 h2 ratio_17_10 by simp
qed

text \<open>
  C10. Once the probe has reported a first stream, \<open>getVideoAspectRatio\<close> returns a
  category and no error, whatever the width and the height. When the height is 0, the
  quotient of the unguarded division is an infinity or NaN and the category is \<open>other\<close>.
\<close>

theorem C10_zero_height_other:
  assumes "ffprobe env p = Inr out" and "Unmarshal env out = Inr resp"
    and "Streams resp = s # ss"
  shows "getVideoAspectRatio env p = Inr (aspect_of_ratio (stream_ratio s)) \<and>
    (Height s = 0 \<longrightarrow>
       stream_ratio s \<in> {PosInf, NegInf, NaN} \<and> getVideoAspectRatio env p = Inr ''other'')"
proof -
  have g: "getVideoAspectRatio env p = Inr (aspect_of_ratio (stream_ratio s))"
    using assms by (rule getVideoAspectRatio_first_stream)
  have "stream_ratio s \<in> {PosInf, NegInf, NaN} \<and> getVideoAspectRatio env p = Inr ''other''"
    if "Height s = 0"
  proof -
    have r: "stream_ratio s \<in> {PosInf, NegInf, NaN}"
      using that f64_div_zero by (simp add: stream_ratio_def float64_of_int_0)
    then have "aspect_of_ratio (stream_ratio s) = ''other''"
      using aspect_NaN aspect_PosInf aspect_NegInf by auto
    with r g show ?thesis by simp
  qed
  with g show ?thesis by blast
qed

theorem C10_zero_height_other_witness:
  "ffprobe (demo_env 640 0) ''f'' = Inr [] \<and>
   Unmarshal (demo_env 640 0) [] = Inr \<lparr>Streams = [\<lparr>Width = 640, Height = 0\<rparr>]\<rparr> \<and>
   stream_ratio \<lparr>Width = 640, Height = 0\<rparr> = PosInf \<and>
   getVideoAspectRatio (demo_env 640 0) ''f'' = Inr ''other''"
proof -
  have h1: "ffprobe (demo_env 640 0) ''f'' = Inr []"
    by (simp add: demo_env_def)
  have h2: "Unmarshal (demo_env 640 0) [] = Inr \<lparr>Streams = [\<lparr>Width = 640, Height = 0\<rparr>]\<rparr>"
    by (simp add: demo_env_def)
  have h3: "Streams \<lparr>Streams = [\<lparr>Width = 640, Height = 0\<rparr>]\<rparr> = \<lparr>Width = 640, Height = 0\<rparr> # []"
    by simp
  have h4: "Height \<lparr>Width = 640, Height = 0\<rparr> = 0"
    by simp
  have v: "stream_ratio \<lparr>Width = 640, Height = 0\<rparr> = PosInf"
    by code_simp
  from C10_zero_height_other [OF h1 h2 h3] h4
  have "getVideoAspectRatio (demo_env 640 0) ''f'' = Inr ''other''"
    by blast
  with h1 h2 v show ?thesis by blast
qed

section \<open>The locator codec\<close>

declare genSplit.simps [simp del]

lemma genSplit_Nil [simp]: "genSplit [c] acc [] = [rev acc]"
  by (subst genSplit.simps) simp

lemma genSplit_Cons [simp]:
  "genSplit [c] acc (x # xs) =
     (if x = c then rev acc # genSplit [c] [] xs else genSplit [c] (x # acc) xs)"
  by (subst genSplit.simps) simp

lemma length_genSplit: "length (genSplit [c] acc s) = Suc (count_list s c)"
  by (induction s arbitrary: acc) simp_all

lemma genSplit_no_sep: "c \<notin> set s \<Longrightarrow> genSplit [c] acc s = [rev acc @ s]"
  by (induction s arbitrary: acc) auto

lemma genSplit_one_sep:
  "c \<notin> set a \<Longrightarrow> c \<notin> set b \<Longrightarrow> genSplit [c] acc (a @ c # b) = [rev acc @ a, b]"
  by (induction a arbitrary: acc) (auto simp add: genSplit_no_sep)

lemma length_Split_comma: "length (Split s '','') = Suc (count_list s CHR '','')"
  by (simp add: Split_def length_genSplit)

lemma Split_videoURL_of:
  "CHR '','' \<notin> set bucket \<Longrightarrow> CHR '','' \<notin> set key \<Longrightarrow>
     Split (videoURL_of bucket key) '','' = [bucket, key]"
  using genSplit_one_sep [of "CHR '',''" bucket key "[]"]
  by (simp add: Split_def videoURL_of_def)

lemma presign_error_not_malformed:
  "''error mapping db video to video with presigned url: '' @ err \<noteq> MalformedLocator"
  by (simp add: MalformedLocator_def)

lemma dbVideoToSignedVideo_None:
  "VideoURL video = None \<Longrightarrow> dbVideoToSignedVideo env video w = (Inr video, w)"
  by (simp add: dbVideoToSignedVideo_def)

lemma dbVideoToSignedVideo_two:
  "VideoURL video = Some s \<Longrightarrow> Split s '','' = [bucket, key] \<Longrightarrow>
     dbVideoToSignedVideo env video w =
       (case presign env bucket key (30 * Minute) of
          Inl err \<Rightarrow>
            Inl (''error mapping db video to video with presigned url: '' @
                 (''error generating presigned url: '' @ err))
        | Inr url \<Rightarrow> Inr (video\<lparr>VideoURL := Some url\<rparr>),
        call (Call_PresignGetObject bucket key (30 * Minute)) w)"
  by (simp add: dbVideoToSignedVideo_def generatePresignedURL_def Let_def split: sum.splits)

lemma dbVideoToSignedVideo_malformed:
  "VideoURL video = Some s \<Longrightarrow> length (Split s '','') \<noteq> 2 \<Longrightarrow>
     dbVideoToSignedVideo env video w = (Inl MalformedLocator, w)"
  by (auto simp add: dbVideoToSignedVideo_def split: list.splits)

lemma length_two: "length xs = 2 \<Longrightarrow> \<exists>a b. xs = [a, b]"
  by (cases xs; cases "tl xs") auto

lemma dbVideoToSignedVideo_db: "db (snd (dbVideoToSignedVideo env video w)) = db w"
proof (cases "VideoURL video")
  case None
  then show ?thesis by (simp add: dbVideoToSignedVideo_None)
next
  case (Some s)
  show ?thesis
  proof (cases "length (Split s '','') = 2")
    case True
    then obtain a b where "Split s '','' = [a, b]"
      using length_two by blast
    with Some show ?thesis
      by (simp add: dbVideoToSignedVideo_two call_def)
  next
    case False
    with Some show ?thesis by (simp add: dbVideoToSignedVideo_malformed)
  qed
qed

text \<open>
  C3, as the code has it. For a record whose \<open>VideoURL\<close> is the string \<open>s\<close>,
  \<open>dbVideoToSignedVideo\<close> fails with the malformed-locator error of line 240 exactly
  when splitting \<open>s\<close> on the comma does not yield exactly two parts, that is exactly
  when \<open>s\<close> does not hold exactly one comma. Whether a part is empty is not looked at.
\<close>

theorem C3_malformed_iff_not_two_parts:
  assumes "VideoURL video = Some s"
  shows "(fst (dbVideoToSignedVideo env video w) = Inl MalformedLocator \<longleftrightarrow>
            length (Split s '','') \<noteq> 2) \<and>
         (length (Split s '','') \<noteq> 2 \<longleftrightarrow> count_list s CHR '','' \<noteq> 1)"
proof -
  have "fst (dbVideoToSignedVideo env video w) \<noteq> Inl MalformedLocator"
    if "length (Split s '','') = 2"
  proof -
    from that obtain a b where "Split s '','' = [a, b]"
      using length_two by blast
    with assms show ?thesis
      using presign_error_not_malformed
      by (simp add: dbVideoToSignedVideo_two split: sum.splits)
  qed
  moreover have "fst (dbVideoToSignedVideo env video w) = Inl MalformedLocator"
    if "length (Split s '','') \<noteq> 2"
    using assms that by (simp add: dbVideoToSignedVideo_malformed)
  ultimately show ?thesis
    by (auto simp add: length_Split_comma)
qed

theorem C3_malformed_iff_not_two_parts_witness:
  "VideoURL (demo_video\<lparr>VideoURL := Some ''a,b,c''\<rparr>) = Some ''a,b,c'' \<and>
   fst (dbVideoToSignedVideo (demo_env 1280 720) (demo_video\<lparr>VideoURL := Some ''a,b,c''\<rparr>)
          demo_world) = Inl MalformedLocator \<and>
   count_list ''a,b,c'' CHR '','' \<noteq> 1"
proof -
  have h: "VideoURL (demo_video\<lparr>VideoURL := Some ''a,b,c''\<rparr>) = Some ''a,b,c''"
    by simp
  have c: "count_list ''a,b,c'' CHR '','' \<noteq> 1"
    by simp
  from C3_malformed_iff_not_two_parts [OF h, of "demo_env 1280 720" demo_world] c
  have "fst (dbVideoToSignedVideo (demo_env 1280 720) (demo_video\<lparr>VideoURL := Some ''a,b,c''\<rparr>)
          demo_world) = Inl MalformedLocator"
    by blast
  with h c show ?thesis by blast
qed

text \<open>
  C3, as stated, fails: a locator with an empty component splits into two parts and is
  handed to the signer; no malformed-locator error is returned.
\<close>

theorem C3_empty_component_counterexample:
  "Split '',k'' '','' = ['''', ''k''] \<and>
   fst (dbVideoToSignedVideo (demo_env 1280 720) (demo_video\<lparr>VideoURL := Some '',k''\<rparr>)
          demo_world) = Inr (demo_video\<lparr>VideoURL := Some ''https:///k?signed''\<rparr>) \<and>
   Split ''b,'' '','' = [''b'', ''''] \<and>
   fst (dbVideoToSignedVideo (demo_env 1280 720) (demo_video\<lparr>VideoURL := Some ''b,''\<rparr>)
          demo_world) = Inr (demo_video\<lparr>VideoURL := Some ''https://b/?signed''\<rparr>)"
  by code_simp

text \<open>
  C5. For a container and a key without a comma, splitting the locator that line 145
  composes gives back exactly the container and the key, and it is for this pair that
  \<open>dbVideoToSignedVideo\<close> asks for a signed URL.
\<close>

theorem C5_locator_roundtrip:
  assumes "CHR '','' \<notin> set container" and "CHR '','' \<notin> set key"
  shows "Split (videoURL_of container key) '','' = [container, key] \<and>
         snd (dbVideoToSignedVideo env (video\<lparr>VideoURL := Some (videoURL_of container key)\<rparr>) w) =
           call (Call_PresignGetObject container key (30 * Minute)) w \<and>
         fst (dbVideoToSignedVideo env (video\<lparr>VideoURL := Some (videoURL_of container key)\<rparr>) w) \<noteq>
           Inl MalformedLocator"
proof -
  have s: "Split (videoURL_of container key) '','' = [container, key]"
    using assms by (rule Split_videoURL_of)
  have v: "VideoURL (video\<lparr>VideoURL := Some (videoURL_of container key)\<rparr>) =
      Some (videoURL_of container key)"
    by simp
  show ?thesis
    using s presign_error_not_malformed
    by (simp add: dbVideoToSignedVideo_two [OF v s] split: sum.splits)
qed

theorem C5_locator_roundtrip_witness:
  "CHR '','' \<notin> set ''tubely'' \<and> CHR '','' \<notin> set ''landscape/abc.mp4'' \<and>
   videoURL_of ''tubely'' ''landscape/abc.mp4'' = ''tubely,landscape/abc.mp4'' \<and>
   Split (videoURL_of ''tubely'' ''landscape/abc.mp4'') '','' = [''tubely'', ''landscape/abc.mp4'']"
proof -
  have h1: "CHR '','' \<notin> set ''tubely''" by simp
  have h2: "CHR '','' \<notin> set ''landscape/abc.mp4''" by simp
  have e: "videoURL_of ''tubely'' ''landscape/abc.mp4'' = ''tubely,landscape/abc.mp4''"
    by (simp add: videoURL_of_def)
  from C5_locator_roundtrip [OF h1 h2]
  have "Split (videoURL_of ''tubely'' ''landscape/abc.mp4'') '','' = [''tubely'', ''landscape/abc.mp4'']"
    by blast
  with h1 h2 e show ?thesis by blast
qed

lemma thirty_minutes: "30 * Minute = 1800 * Second"
  by (simp add: Minute_def)

text \<open>
  C6. A record whose \<open>VideoURL\<close> is unset is returned as it is, and the world with it: no
  signing call is made. For a record whose \<open>VideoURL\<close> splits into bucket and key, exactly
  one signing call is made, for that bucket and key and a validity of 30 minutes; the signed
  URL is returned in the record, and the record store is not touched.
\<close>

theorem C6_unset_unchanged_valid_signed:
  "(VideoURL video = None \<longrightarrow> dbVideoToSignedVideo env video w = (Inr video, w)) \<and>
   (VideoURL video = Some s \<and> Split s '','' = [bucket, key] \<longrightarrow>
      snd (dbVideoToSignedVideo env video w) =
        w\<lparr>calls := calls w @ [Call_PresignGetObject bucket key (30 * Minute)]\<rparr> \<and>
      (\<forall>url. presign env bucket key (30 * Minute) = Inr url \<longrightarrow>
         fst (dbVideoToSignedVideo env video w) = Inr (video\<lparr>VideoURL := Some url\<rparr>)) \<and>
      (\<forall>err. presign env bucket key (30 * Minute) = Inl err \<longrightarrow>
         (\<exists>e. fst (dbVideoToSignedVideo env video w) = Inl e))) \<and>
   db (snd (dbVideoToSignedVideo env video w)) = db w \<and>
   30 * Minute = 1800 * Second \<and> Second = 10 ^ 9"
proof -
  have unset: "VideoURL video = None \<longrightarrow> dbVideoToSignedVideo env video w = (Inr video, w)"
    by (simp add: dbVideoToSignedVideo_None)
  have valid: "snd (dbVideoToSignedVideo env video w) =
        w\<lparr>calls := calls w @ [Call_PresignGetObject bucket key (30 * Minute)]\<rparr> \<and>
      (\<forall>url. presign env bucket key (30 * Minute) = Inr url \<longrightarrow>
         fst (dbVideoToSignedVideo env video w) = Inr (video\<lparr>VideoURL := Some url\<rparr>)) \<and>
      (\<forall>err. presign env bucket key (30 * Minute) = Inl err \<longrightarrow>
         (\<exists>e. fst (dbVideoToSignedVideo env video w) = Inl e))"
    if "VideoURL video = Some s" and "Split s '','' = [bucket, key]"
    using that by (simp add: dbVideoToSignedVideo_two call_def)
  have second: "Second = 10 ^ 9"
    by (simp add: Second_def)
  show ?thesis
    using unset valid thirty_minutes second dbVideoToSignedVideo_db [of env video w] by blast
qed

theorem C6_unset_unchanged_valid_signed_witness:
  "dbVideoToSignedVideo (demo_env 1280 720) demo_video demo_world = (Inr demo_video, demo_world) \<and>
   dbVideoToSignedVideo (demo_env 1280 720) (demo_video\<lparr>VideoURL := Some ''tubely,other/x.mp4''\<rparr>)
       demo_world =
     (Inr (demo_video\<lparr>VideoURL := Some ''https://tubely/other/x.mp4?signed''\<rparr>),
      demo_world\<lparr>calls := [Call_PresignGetObject ''tubely'' ''other/x.mp4'' 1800000000000]\<rparr>)"
proof -
  have n: "VideoURL demo_video = None"
    by (simp add: demo_video_def)
  have s: "VideoURL (demo_video\<lparr>VideoURL := Some ''tubely,other/x.mp4''\<rparr>) = Some ''tubely,other/x.mp4''"
    by simp
  have p: "Split ''tubely,other/x.mp4'' '','' = [''tubely'', ''other/x.mp4'']"
    by code_simp
  have u: "presign (demo_env 1280 720) ''tubely'' ''other/x.mp4'' (30 * Minute) =
      Inr ''https://tubely/other/x.mp4?signed''"
    by (simp add: demo_env_def)
  have c: "calls demo_world = []"
    by (simp add: demo_world_def)
  have m: "30 * Minute = 1800000000000"
    by (simp add: Minute_def Second_def)
  note a = C6_unset_unchanged_valid_signed [of demo_video "demo_env 1280 720" demo_world]
  note b = C6_unset_unchanged_valid_signed [of "demo_video\<lparr>VideoURL := Some ''tubely,other/x.mp4''\<rparr>"
      "demo_env 1280 720" demo_world "''tubely,other/x.mp4''" "''tubely''" "''other/x.mp4''"]
  from a n have 1: "dbVideoToSignedVideo (demo_env 1280 720) demo_video demo_world =
      (Inr demo_video, demo_world)"
    by blast
  from b s p u have 2: "fst (dbVideoToSignedVideo (demo_env 1280 720)
        (demo_video\<lparr>VideoURL := Some ''tubely,other/x.mp4''\<rparr>) demo_world) =
      Inr (demo_video\<lparr>VideoURL := Some ''tubely,other/x.mp4'',
             VideoURL := Some ''https://tubely/other/x.mp4?signed''\<rparr>)"
    by blast
  from b s p have 3: "snd (dbVideoToSignedVideo (demo_env 1280 720)
        (demo_video\<lparr>VideoURL := Some ''tubely,other/x.mp4''\<rparr>) demo_world) =
      demo_world\<lparr>calls := calls demo_world @
        [Call_PresignGetObject ''tubely'' ''other/x.mp4'' (30 * Minute)]\<rparr>"
    by blast
  show ?thesis
    using 1 2 3 c m by (simp add: prod_eq_iff)
qed

section \<open>What the handler does to the world\<close>

lemma call_simps [simp]:
  "files (call e w) = files w" "s3 (call e w) = s3 w" "db (call e w) = db w"
  "calls (call e w) = calls w @ [e]"
  by (simp_all add: call_def)

lemma Remove_simps [simp]:
  "files (Remove n w) = files w - {n}" "s3 (Remove n w) = s3 w" "db (Remove n w) = db w"
  "calls (Remove n w) = calls w @ [Call_Remove n]"
  by (simp_all add: Remove_def)

lemma updates_of_append [simp]: "updates_of (xs @ ys) = updates_of xs @ updates_of ys"
  by (induction xs rule: updates_of.induct) simp_all

lemma dbVideoToSignedVideo_frame:
  assumes "dbVideoToSignedVideo env video w = (res, w')"
  shows "files w' = files w \<and> s3 w' = s3 w \<and> db w' = db w \<and>
    updates_of (calls w') = updates_of (calls w)"
proof (cases "VideoURL video")
  case None
  with assms show ?thesis by (simp add: dbVideoToSignedVideo_None)
next
  case (Some s)
  show ?thesis
  proof (cases "length (Split s '','') = 2")
    case True
    then obtain a b where "Split s '','' = [a, b]"
      using length_two by blast
    with Some assms show ?thesis
      by (auto simp add: dbVideoToSignedVideo_two)
  next
    case False
    with Some assms show ?thesis by (simp add: dbVideoToSignedVideo_malformed)
  qed
qed

text \<open>
  Past the random source, the record store either stays as it was, and then the response
  is not the success, or holds the fetched record with the composed locator.
\<close>

lemma upload_processed_outcome:
  assumes "upload_processed cfg env video mediaType ext keyPrefix processed w = (resp, w')"
  shows "db w' = db w \<and> (\<forall>v. resp \<noteq> RespJSON 200 v) \<or>
     (\<exists>bytes. rand_Read env = Inr bytes \<and>
        db w' = (db w)(ID video \<mapsto> video\<lparr>VideoURL := Some (videoURL_of (s3Bucket cfg)
          (objectKey_of keyPrefix (EncodeToString (take 32 (bytes @ replicate 32 0))) ext))\<rparr>) \<and>
        updates_of (calls w') = updates_of (calls w) @
          [video\<lparr>VideoURL := Some (videoURL_of (s3Bucket cfg)
          (objectKey_of keyPrefix (EncodeToString (take 32 (bytes @ replicate 32 0))) ext))\<rparr>])"
proof (cases "rand_Read env")
  case (Inl err)
  with assms show ?thesis
    by (auto simp add: upload_processed_def)
next
  case (Inr bytes)
  define key where
    "key = objectKey_of keyPrefix (EncodeToString (take 32 (bytes @ replicate 32 0))) ext"
  define video' where "video' = video\<lparr>VideoURL := Some (videoURL_of (s3Bucket cfg) key)\<rparr>"
  define w1 where "w1 = call (Call_PutObject (s3Bucket cfg) key processed mediaType) w"
  show ?thesis
  proof (cases "put_error env (s3Bucket cfg) key")
    case (Some err)
    with assms Inr have "w' = w1" and "resp = RespError 500 ''Something went wrong''"
      by (simp_all add: upload_processed_def PutObject_def Let_def key_def w1_def)
    then show ?thesis by (simp add: w1_def)
  next
    case None
    define w1' where "w1' = w1\<lparr>s3 := (s3 w1)((s3Bucket cfg, key) \<mapsto> (processed, mediaType))\<rparr>"
    have put: "PutObject env (s3Bucket cfg) key processed mediaType w = (None, w1')"
      using None by (simp add: PutObject_def Let_def w1_def w1'_def)
    have db1: "db w1' = db w"
      by (simp add: w1'_def w1_def)
    have calls1: "updates_of (calls w1') = updates_of (calls w)"
      by (simp add: w1'_def w1_def)
    show ?thesis
    proof (cases "update_error env video'")
      case (Some err)
      then have "UpdateVideo env video' w1' = (Some err, call (Call_UpdateVideo video') w1')"
        by (simp add: UpdateVideo_def Let_def)
      with assms Inr put have "w' = call (Call_UpdateVideo video') w1'"
        and "resp = RespError 500 ''Something went wrong''"
        by (simp_all add: upload_processed_def Let_def key_def video'_def)
      then show ?thesis by (simp add: db1)
    next
      case None
      define w2 where "w2 = (call (Call_UpdateVideo video') w1')
          \<lparr>db := (db (call (Call_UpdateVideo video') w1'))(ID video' \<mapsto> video')\<rparr>"
      have upd: "UpdateVideo env video' w1' = (None, w2)"
        using None by (simp add: UpdateVideo_def Let_def w2_def)
      have db2: "db w2 = (db w)(ID video \<mapsto> video')"
        by (simp add: w2_def db1 video'_def)
      have calls2: "updates_of (calls w2) = updates_of (calls w) @ [video']"
        by (simp add: w2_def calls1)
      obtain res w3 where sign: "dbVideoToSignedVideo env video' w2 = (res, w3)"
        by (cases "dbVideoToSignedVideo env video' w2")
      from assms Inr put upd sign have "w' = w3"
        by (simp add: upload_processed_def Let_def key_def video'_def split: sum.splits)
      with dbVideoToSignedVideo_frame [OF sign] db2 calls2
      have "db w' = (db w)(ID video \<mapsto> video')"
        and "updates_of (calls w') = updates_of (calls w) @ [video']"
        by simp_all
      with Inr show ?thesis
        by (simp add: video'_def key_def)
    qed
  qed
qed

lemma upload_staged_outcome:
  assumes "upload_staged cfg env video mediaType ext tempfile w = (resp, w')"
  shows "(db w' = db w \<and> (\<forall>v. resp \<noteq> RespJSON 200 v) \<or>
     (\<exists>aspect bytes. getVideoAspectRatio env tempfile = Inr aspect \<and> rand_Read env = Inr bytes \<and>
        db w' = (db w)(ID video \<mapsto> video\<lparr>VideoURL := Some (videoURL_of (s3Bucket cfg)
          (objectKey_of (keyPrefix_of aspect)
             (EncodeToString (take 32 (bytes @ replicate 32 0))) ext))\<rparr>) \<and>
        updates_of (calls w') = updates_of (calls w) @
          [video\<lparr>VideoURL := Some (videoURL_of (s3Bucket cfg)
          (objectKey_of (keyPrefix_of aspect)
             (EncodeToString (take 32 (bytes @ replicate 32 0))) ext))\<rparr>]))"
  using assms
  unfolding upload_staged_def processVideoForFastStart_def Let_def
  by (auto split: sum.splits option.splits prod.splits dest!: upload_processed_outcome)

text \<open>
  A run of the handler either ends before a temporary file is created, or reaches the
  staged part with the checks of lines 30 to 79 passed.
\<close>

lemma handler_cases:
  assumes "handlerUploadVideo cfg env r w = (resp, w')"
  obtains
    (early) es where "files w' = files w" and "s3 w' = s3 w" and "db w' = db w"
      and "calls w' = calls w @ Call_MaxBytesReader uploadLimit # es"
      and "set es \<subseteq> {Call_FormFile ''video''}"
      and "\<exists>code msg. resp = RespError code msg"
  | (staged) videoID token video mimeType ext exts tempfile w3 where
      "uuid_Parse env (PathValue_videoID r) = Inr videoID"
      and "GetBearerToken env (Header r) = Inr token"
      and "ValidateJWT env token (jwtSecret cfg) = Inr (UserID video)"
      and "db w videoID = Some video"
      and "body_size r \<le> uploadLimit" and "form_video r = Inr mimeType"
      and "fst (ParseMediaType env mimeType) = ''video/mp4''"
      and "ExtensionsByType env mimeType = Inr (ext # exts)"
      and "temp_name env ''tubely-upload.mp4'' = Inr tempfile" and "tempfile \<notin> files w"
      and "upload_staged cfg env video ''video/mp4'' ext tempfile
             (w\<lparr>files := insert tempfile (files w),
                calls := calls w @ [Call_MaxBytesReader uploadLimit, Call_FormFile ''video'',
                                    Call_CreateTemp tempfile]\<rparr>) = (resp, w3)"
      and "w' = Remove tempfile w3"
  using assms
  unfolding handlerUploadVideo_def FormFile_def CreateTemp_def GetVideo_def Let_def call_def
  by (auto split: sum.splits option.splits prod.splits list.splits if_splits)

lemma handler_outcome:
  assumes "handlerUploadVideo cfg env r w = (resp, w')"
  shows "(db w' = db w \<and> (\<forall>v. resp \<noteq> RespJSON 200 v) \<or>
     (\<exists>videoID video mimeType ext exts tempfile aspect bytes.
        uuid_Parse env (PathValue_videoID r) = Inr videoID \<and> db w videoID = Some video \<and>
        form_video r = Inr mimeType \<and> ExtensionsByType env mimeType = Inr (ext # exts) \<and>
        temp_name env ''tubely-upload.mp4'' = Inr tempfile \<and>
        getVideoAspectRatio env tempfile = Inr aspect \<and> rand_Read env = Inr bytes \<and>
        db w' = (db w)(ID video \<mapsto> video\<lparr>VideoURL := Some (videoURL_of (s3Bucket cfg)
          (objectKey_of (keyPrefix_of aspect)
             (EncodeToString (take 32 (bytes @ replicate 32 0))) ext))\<rparr>) \<and>
        updates_of (calls w') = updates_of (calls w) @
          [video\<lparr>VideoURL := Some (videoURL_of (s3Bucket cfg)
          (objectKey_of (keyPrefix_of aspect)
             (EncodeToString (take 32 (bytes @ replicate 32 0))) ext))\<rparr>]))"
  using assms
proof (cases rule: handler_cases)
  case (early es)
  then show ?thesis by auto
next
  case (staged videoID token video mimeType ext exts tempfile w3)
  from upload_staged_outcome [OF staged(11)] staged(12)
  consider "db w' = db w \<and> (\<forall>v. resp \<noteq> RespJSON 200 v)"
    | aspect bytes where "getVideoAspectRatio env tempfile = Inr aspect"
        and "rand_Read env = Inr bytes"
        and "db w' = (db w)(ID video \<mapsto> video\<lparr>VideoURL := Some (videoURL_of (s3Bucket cfg)
          (objectKey_of (keyPrefix_of aspect)
             (EncodeToString (take 32 (bytes @ replicate 32 0))) ext))\<rparr>)"
        and "updates_of (calls w') = updates_of (calls w) @
          [video\<lparr>VideoURL := Some (videoURL_of (s3Bucket cfg)
          (objectKey_of (keyPrefix_of aspect)
             (EncodeToString (take 32 (bytes @ replicate 32 0))) ext))\<rparr>]"
    by auto
  then show ?thesis
  proof cases
    case 1
    then show ?thesis by blast
  next
    case 2
    with staged(1,4,6,8,9) show ?thesis by blast
  qed
qed

section \<open>Object keys\<close>









section \<open>The concrete request, run\<close>

lemma replicate_32:
  "replicate 32 x =
     [x, x, x, x, x, x, x, x, x, x, x, x, x, x, x, x, x, x, x, x, x, x, x, x, x, x, x, x, x, x, x, x]"
  by (simp add: numeral_eq_Suc)

lemma zero_name:
  "EncodeToString (replicate 32 0) = ''AAAAAAAAAAAAAAAAAAAAAAAAAAAAAAAAAAAAAAAAAAA''"
  by (simp add: replicate_32 b64_val_def b64_char_def encodeURL_def Let_def)

lemma aspect_1280_720: "aspect_of_ratio (stream_ratio \<lparr>Width = 1280, Height = 720\<rparr>) = ''16:9''"
  by code_simp

lemma aspect_720_1280: "aspect_of_ratio (stream_ratio \<lparr>Width = 720, Height = 1280\<rparr>) = ''9:16''"
  by code_simp

lemma aspect_640_480: "aspect_of_ratio (stream_ratio \<lparr>Width = 640, Height = 480\<rparr>) = ''other''"
  by code_simp

lemma demo_probe:
  "getVideoAspectRatio (demo_env wd ht) p =
     Inr (aspect_of_ratio (stream_ratio \<lparr>Width = wd, Height = ht\<rparr>))"
  by (simp add: getVideoAspectRatio_def demo_env_def)

lemma remux_fail_probe:
  "getVideoAspectRatio remux_fail_env p =
     Inr (aspect_of_ratio (stream_ratio \<lparr>Width = 1280, Height = 720\<rparr>))"
  by (simp add: getVideoAspectRatio_def remux_fail_env_def demo_env_def)

lemmas demo_defs = demo_env_def remux_fail_env_def comma_ext_env_def demo_cfg_def demo_request_def demo_video_def
  demo_world_def

lemmas run_defs = FormFile_def CreateTemp_def GetVideo_def os_Open_def PutObject_def
  UpdateVideo_def processVideoForFastStart_def generatePresignedURL_def
  dbVideoToSignedVideo_def keyPrefix_of_def objectKey_of_def videoURL_of_def uploadLimit_def
  Split_def Let_def call_def Remove_def

lemma demo_upload_ok:
  "fst (handlerUploadVideo demo_cfg (demo_env 1280 720) demo_request demo_world) =
     RespJSON 200 (demo_video\<lparr>VideoURL := Some
       ''https://tubely/landscape/AAAAAAAAAAAAAAAAAAAAAAAAAAAAAAAAAAAAAAAAAAA.mp4?signed''\<rparr>)"
  unfolding handlerUploadVideo_def upload_staged_def upload_processed_def demo_probe
    aspect_1280_720
  by (simp add: demo_defs zero_name run_defs)

lemma demo_upload_db_wide:
  "db (snd (handlerUploadVideo demo_cfg (demo_env 1280 720) demo_request demo_world)) 7 =
     Some (demo_video\<lparr>VideoURL := Some
       ''tubely,landscape/AAAAAAAAAAAAAAAAAAAAAAAAAAAAAAAAAAAAAAAAAAA.mp4''\<rparr>)"
  unfolding handlerUploadVideo_def upload_staged_def upload_processed_def demo_probe
    aspect_1280_720
  by (simp add: demo_defs zero_name run_defs)

lemma demo_upload_db_tall:
  "db (snd (handlerUploadVideo demo_cfg (demo_env 720 1280) demo_request demo_world)) 7 =
     Some (demo_video\<lparr>VideoURL := Some
       ''tubely,portrait/AAAAAAAAAAAAAAAAAAAAAAAAAAAAAAAAAAAAAAAAAAA.mp4''\<rparr>)"
  unfolding handlerUploadVideo_def upload_staged_def upload_processed_def demo_probe
    aspect_720_1280
  by (simp add: demo_defs zero_name run_defs)

lemma demo_upload_db_other:
  "db (snd (handlerUploadVideo demo_cfg (demo_env 640 480) demo_request demo_world)) 7 =
     Some (demo_video\<lparr>VideoURL := Some
       ''tubely,other/AAAAAAAAAAAAAAAAAAAAAAAAAAAAAAAAAAAAAAAAAAA.mp4''\<rparr>)"
  unfolding handlerUploadVideo_def upload_staged_def upload_processed_def demo_probe
    aspect_640_480
  by (simp add: demo_defs zero_name run_defs)





lemma demo_remux_fail:
  "handlerUploadVideo demo_cfg remux_fail_env demo_request demo_world =
     (RespError 500 ''Error processing video for faststart'',
      demo_world\<lparr>files := {''/tmp/tubely-upload.mp4123.processing''},
        calls := [Call_MaxBytesReader 1073741824, Call_FormFile ''video'',
          Call_CreateTemp ''/tmp/tubely-upload.mp4123'',
          Call_ffmpeg ''/tmp/tubely-upload.mp4123'' ''/tmp/tubely-upload.mp4123.processing'',
          Call_Remove ''/tmp/tubely-upload.mp4123'']\<rparr>)"
  unfolding handlerUploadVideo_def upload_staged_def upload_processed_def remux_fail_probe
    aspect_1280_720
  by (auto simp add: demo_defs run_defs)


lemma handler_remux_response:
  assumes "handlerUploadVideo cfg env r w =
      (RespError 500 ''Error processing video for faststart'', w')"
  obtains (staged) video ext tempfile w3 where
      "temp_name env ''tubely-upload.mp4'' = Inr tempfile" and "tempfile \<notin> files w"
      and "upload_staged cfg env video ''video/mp4'' ext tempfile
             (w\<lparr>files := insert tempfile (files w),
                calls := calls w @ [Call_MaxBytesReader uploadLimit, Call_FormFile ''video'',
                                    Call_CreateTemp tempfile]\<rparr>) =
           (RespError 500 ''Error processing video for faststart'', w3)"
      and "w' = Remove tempfile w3"
  using assms
  unfolding handlerUploadVideo_def FormFile_def CreateTemp_def GetVideo_def Let_def call_def
  by (auto split: sum.splits option.splits prod.splits list.splits if_splits)

lemma upload_processed_response:
  "upload_processed cfg env video mediaType ext keyPrefix processed w = (resp, w') \<Longrightarrow>
     resp \<noteq> RespError 500 ''Error processing video for faststart''"
  unfolding upload_processed_def PutObject_def UpdateVideo_def Let_def
  by (auto split: sum.splits option.splits prod.splits)

text \<open>
  What a failed remux leaves: the stores as they were, the staged file removed, and the
  output file of \<open>ffmpeg\<close> in place when \<open>ffmpeg\<close> had created it.
\<close>

lemma remux_failure_effects:
  assumes "handlerUploadVideo cfg env r w =
      (RespError 500 ''Error processing video for faststart'', w')"
  shows "\<exists>tempfile err.
     temp_name env ''tubely-upload.mp4'' = Inr tempfile \<and> tempfile \<notin> files w \<and>
     fst (ffmpeg env tempfile (tempfile @ ''.processing'')) = Some err \<and>
     s3 w' = s3 w \<and> db w' = db w \<and>
     files w' = (if snd (ffmpeg env tempfile (tempfile @ ''.processing''))
                 then insert (tempfile @ ''.processing'') (files w) else files w)"
  using assms
proof (cases rule: handler_remux_response)
  case (staged video ext tempfile w3)
  from staged(3) have "fst (ffmpeg env tempfile (tempfile @ ''.processing'')) \<noteq> None \<and>
     s3 w3 = s3 w \<and> db w3 = db w \<and>
     files w3 = (if snd (ffmpeg env tempfile (tempfile @ ''.processing''))
                 then insert (tempfile @ ''.processing'') (insert tempfile (files w))
                 else insert tempfile (files w))"
    unfolding upload_staged_def processVideoForFastStart_def Let_def
    by (auto split: sum.splits option.splits prod.splits if_splits
        dest: upload_processed_response)
  with staged(1,2,4) show ?thesis
    by auto
qed

section \<open>The upload handler\<close>

text \<open>
  C2, as the code has it. After a successful upload the record store holds the fetched
  record with a locator whose key starts with the prefix chosen from the classification
  of the staged file: \<open>landscape/\<close> for \<open>16:9\<close>, \<open>portrait/\<close> for \<open>9:16\<close>, and
  \<open>other/\<close> for anything else.
\<close>

theorem C2_key_prefix_of_aspect:
  assumes "fst (handlerUploadVideo cfg env r w) = RespJSON 200 v"
  shows "\<exists>video tempfile aspect key.
     temp_name env ''tubely-upload.mp4'' = Inr tempfile \<and>
     getVideoAspectRatio env tempfile = Inr aspect \<and>
     db (snd (handlerUploadVideo cfg env r w)) =
       (db w)(ID video \<mapsto> video\<lparr>VideoURL := Some (videoURL_of (s3Bucket cfg) key)\<rparr>) \<and>
     (aspect = ''16:9'' \<longrightarrow> take 10 key = ''landscape/'') \<and>
     (aspect = ''9:16'' \<longrightarrow> take 9 key = ''portrait/'') \<and>
     (aspect \<noteq> ''16:9'' \<and> aspect \<noteq> ''9:16'' \<longrightarrow> take 6 key = ''other/'')"
proof -
  obtain w' where run: "handlerUploadVideo cfg env r w = (RespJSON 200 v, w')"
    using assms by (cases "handlerUploadVideo cfg env r w") simp
  from handler_outcome [OF run]
  obtain video ext tempfile aspect bytes where
    t: "temp_name env ''tubely-upload.mp4'' = Inr tempfile"
    and a: "getVideoAspectRatio env tempfile = Inr aspect"
    and d: "db w' = (db w)(ID video \<mapsto> video\<lparr>VideoURL := Some (videoURL_of (s3Bucket cfg)
          (objectKey_of (keyPrefix_of aspect)
             (EncodeToString (take 32 (bytes @ replicate 32 0))) ext))\<rparr>)"
    by blast
  define key where
    "key = objectKey_of (keyPrefix_of aspect) (EncodeToString (take 32 (bytes @ replicate 32 0))) ext"
  have "aspect = ''16:9'' \<longrightarrow> take 10 key = ''landscape/''"
    and "aspect = ''9:16'' \<longrightarrow> take 9 key = ''portrait/''"
    and "aspect \<noteq> ''16:9'' \<and> aspect \<noteq> ''9:16'' \<longrightarrow> take 6 key = ''other/''"
    by (simp_all add: key_def keyPrefix_of_def objectKey_of_def)
  moreover have "db (snd (handlerUploadVideo cfg env r w)) =
      (db w)(ID video \<mapsto> video\<lparr>VideoURL := Some (videoURL_of (s3Bucket cfg) key)\<rparr>)"
    using d run by (simp add: key_def)
  ultimately show ?thesis
    using t a by blast
qed

theorem C2_key_prefix_of_aspect_witness:
  "fst (handlerUploadVideo demo_cfg (demo_env 1280 720) demo_request demo_world) =
     RespJSON 200 (demo_video\<lparr>VideoURL := Some
       ''https://tubely/landscape/AAAAAAAAAAAAAAAAAAAAAAAAAAAAAAAAAAAAAAAAAAA.mp4?signed''\<rparr>) \<and>
   (\<exists>video tempfile aspect key.
     temp_name (demo_env 1280 720) ''tubely-upload.mp4'' = Inr tempfile \<and>
     getVideoAspectRatio (demo_env 1280 720) tempfile = Inr aspect \<and>
     db (snd (handlerUploadVideo demo_cfg (demo_env 1280 720) demo_request demo_world)) =
       (db demo_world)(ID video \<mapsto>
          video\<lparr>VideoURL := Some (videoURL_of (s3Bucket demo_cfg) key)\<rparr>) \<and>
     (aspect = ''16:9'' \<longrightarrow> take 10 key = ''landscape/'') \<and>
     (aspect = ''9:16'' \<longrightarrow> take 9 key = ''portrait/'') \<and>
     (aspect \<noteq> ''16:9'' \<and> aspect \<noteq> ''9:16'' \<longrightarrow> take 6 key = ''other/'')) \<and>
   db (snd (handlerUploadVideo demo_cfg (demo_env 1280 720) demo_request demo_world)) 7 =
     Some (demo_video\<lparr>VideoURL := Some
       ''tubely,landscape/AAAAAAAAAAAAAAAAAAAAAAAAAAAAAAAAAAAAAAAAAAA.mp4''\<rparr>) \<and>
   db (snd (handlerUploadVideo demo_cfg (demo_env 720 1280) demo_request demo_world)) 7 =
     Some (demo_video\<lparr>VideoURL := Some
       ''tubely,portrait/AAAAAAAAAAAAAAAAAAAAAAAAAAAAAAAAAAAAAAAAAAA.mp4''\<rparr>) \<and>
   db (snd (handlerUploadVideo demo_cfg (demo_env 640 480) demo_request demo_world)) 7 =
     Some (demo_video\<lparr>VideoURL := Some
       ''tubely,other/AAAAAAAAAAAAAAAAAAAAAAAAAAAAAAAAAAAAAAAAAAA.mp4''\<rparr>)"
  using demo_upload_ok C2_key_prefix_of_aspect [OF demo_upload_ok]
    demo_upload_db_wide demo_upload_db_tall demo_upload_db_other
  by (intro conjI)

text \<open>
  C2, as stated, fails: the 1280 by 720 video is classified \<open>16:9\<close> and its key starts with
  \<open>landscape/\<close>, not \<open>wide/\<close>; the 720 by 1280 video is classified \<open>9:16\<close> and its key
  starts with \<open>portrait/\<close>, not \<open>tall/\<close>.
\<close>

theorem C2_wide_prefix_counterexample:
  "getVideoAspectRatio (demo_env 1280 720) ''/tmp/tubely-upload.mp4123'' = Inr ''16:9'' \<and>
   db (snd (handlerUploadVideo demo_cfg (demo_env 1280 720) demo_request demo_world)) 7 =
     Some (demo_video\<lparr>VideoURL := Some
       ''tubely,landscape/AAAAAAAAAAAAAAAAAAAAAAAAAAAAAAAAAAAAAAAAAAA.mp4''\<rparr>) \<and>
   take 5 ''landscape/AAAAAAAAAAAAAAAAAAAAAAAAAAAAAAAAAAAAAAAAAAA.mp4'' \<noteq> ''wide/'' \<and>
   getVideoAspectRatio (demo_env 720 1280) ''/tmp/tubely-upload.mp4123'' = Inr ''9:16'' \<and>
   db (snd (handlerUploadVideo demo_cfg (demo_env 720 1280) demo_request demo_world)) 7 =
     Some (demo_video\<lparr>VideoURL := Some
       ''tubely,portrait/AAAAAAAAAAAAAAAAAAAAAAAAAAAAAAAAAAAAAAAAAAA.mp4''\<rparr>) \<and>
   take 5 ''portrait/AAAAAAAAAAAAAAAAAAAAAAAAAAAAAAAAAAAAAAAAAAA.mp4'' \<noteq> ''tall/''"
  using demo_upload_db_wide demo_upload_db_tall
  by (simp add: demo_probe aspect_1280_720 aspect_720_1280)

text \<open>
  C4 at the failing input: \<open>ffmpeg\<close> creates its output file and then exits with an error.
  The request ends with the error response, nothing is put in the object store and no
  record is updated, the staged file is removed, but the output file of \<open>ffmpeg\<close> stays.
\<close>

theorem C4_remux_failure_leaves_output:
  "fst (handlerUploadVideo demo_cfg remux_fail_env demo_request demo_world) =
     RespError 500 ''Error processing video for faststart'' \<and>
   files demo_world = {} \<and>
   files (snd (handlerUploadVideo demo_cfg remux_fail_env demo_request demo_world)) =
     {''/tmp/tubely-upload.mp4123.processing''} \<and>
   calls (snd (handlerUploadVideo demo_cfg remux_fail_env demo_request demo_world)) =
     [Call_MaxBytesReader 1073741824, Call_FormFile ''video'',
      Call_CreateTemp ''/tmp/tubely-upload.mp4123'',
      Call_ffmpeg ''/tmp/tubely-upload.mp4123'' ''/tmp/tubely-upload.mp4123.processing'',
      Call_Remove ''/tmp/tubely-upload.mp4123''] \<and>
   s3 (snd (handlerUploadVideo demo_cfg remux_fail_env demo_request demo_world)) = s3 demo_world \<and>
   db (snd (handlerUploadVideo demo_cfg remux_fail_env demo_request demo_world)) = db demo_world"
  by (simp add: demo_remux_fail) (simp add: demo_world_def)



text \<open>
  C8. On a successful upload \<open>UpdateVideo\<close> is called once, with the record fetched for
  the request in which only \<open>VideoURL\<close> is set to the locator, and the record store is the
  one before the request with that record put in place of the fetched one. Its identity,
  the owning user and the thumbnail reference are unchanged.
\<close>

theorem C8_update_changes_only_locator:
  assumes "fst (handlerUploadVideo cfg env r w) = RespJSON 200 v"
  shows "\<exists>videoID video locator.
     uuid_Parse env (PathValue_videoID r) = Inr videoID \<and> db w videoID = Some video \<and>
     updates_of (calls (snd (handlerUploadVideo cfg env r w))) =
       updates_of (calls w) @ [video\<lparr>VideoURL := Some locator\<rparr>] \<and>
     db (snd (handlerUploadVideo cfg env r w)) =
       (db w)(ID video \<mapsto> video\<lparr>VideoURL := Some locator\<rparr>) \<and>
     ID (video\<lparr>VideoURL := Some locator\<rparr>) = ID video \<and>
     UserID (video\<lparr>VideoURL := Some locator\<rparr>) = UserID video \<and>
     ThumbnailURL (video\<lparr>VideoURL := Some locator\<rparr>) = ThumbnailURL video"
proof -
  obtain w' where run: "handlerUploadVideo cfg env r w = (RespJSON 200 v, w')"
    using assms by (cases "handlerUploadVideo cfg env r w") simp
  from handler_outcome [OF run]
  obtain videoID video locator where
    "uuid_Parse env (PathValue_videoID r) = Inr videoID" and "db w videoID = Some video"
    and "db w' = (db w)(ID video \<mapsto> video\<lparr>VideoURL := Some locator\<rparr>)"
    and "updates_of (calls w') = updates_of (calls w) @ [video\<lparr>VideoURL := Some locator\<rparr>]"
    by blast
  with run show ?thesis
    by auto
qed

theorem C8_update_changes_only_locator_witness:
  "fst (handlerUploadVideo demo_cfg (demo_env 1280 720) demo_request demo_world) =
     RespJSON 200 (demo_video\<lparr>VideoURL := Some
       ''https://tubely/landscape/AAAAAAAAAAAAAAAAAAAAAAAAAAAAAAAAAAAAAAAAAAA.mp4?signed''\<rparr>) \<and>
   (\<exists>videoID video locator.
     uuid_Parse (demo_env 1280 720) (PathValue_videoID demo_request) = Inr videoID \<and>
     db demo_world videoID = Some video \<and>
     updates_of (calls (snd (handlerUploadVideo demo_cfg (demo_env 1280 720) demo_request
         demo_world))) = updates_of (calls demo_world) @ [video\<lparr>VideoURL := Some locator\<rparr>] \<and>
     db (snd (handlerUploadVideo demo_cfg (demo_env 1280 720) demo_request demo_world)) =
       (db demo_world)(ID video \<mapsto> video\<lparr>VideoURL := Some locator\<rparr>) \<and>
     ID (video\<lparr>VideoURL := Some locator\<rparr>) = ID video \<and>
     UserID (video\<lparr>VideoURL := Some locator\<rparr>) = UserID video \<and>
     ThumbnailURL (video\<lparr>VideoURL := Some locator\<rparr>) = ThumbnailURL video)"
  using demo_upload_ok C8_update_changes_only_locator [OF demo_upload_ok] by (rule conjI)




end
